theory Spec2Isabelle
  imports Main
begin

section \<open>Python values\<close>

text \<open>
  The shell is dynamically typed: the same attribute holds \<open>None\<close>, an integer or a
  string, and the conditions of the code test truthiness (\<open>if not target\<close>,
  \<open>if not self.current\<close>, \<open>limit if limit else 1000\<close>). Values are therefore a
  datatype, with Python's truth test and Python's \<open>str()\<close> written out.
\<close>

datatype pyval = PyNone | PyBool bool | PyInt int | PyStr string

fun truthy :: "pyval \<Rightarrow> bool" where
  "truthy PyNone = False"
| "truthy (PyBool b) = b"
| "truthy (PyInt i) = (i \<noteq> 0)"
| "truthy (PyStr s) = (s \<noteq> [])"

fun str_nat :: "nat \<Rightarrow> string" where
  "str_nat n =
     (if n < 10 then [''0123456789'' ! n]
      else str_nat (n div 10) @ [''0123456789'' ! (n mod 10)])"

declare str_nat.simps [simp del]

definition str_int :: "int \<Rightarrow> string" where
  "str_int i = (if i < 0 then CHR ''-'' # str_nat (nat (- i)) else str_nat (nat i))"

fun py_str :: "pyval \<Rightarrow> string" where
  "py_str PyNone = ''None''"
| "py_str (PyBool b) = (if b then ''True'' else ''False'')"
| "py_str (PyInt i) = str_int i"
| "py_str (PyStr s) = s"

text \<open>\<open>sep.join(parts)\<close>.\<close>

fun join :: "string \<Rightarrow> string list \<Rightarrow> string" where
  "join sep [] = []"
| "join sep [x] = x"
| "join sep (x # y # ys) = x @ sep @ join sep (y # ys)"

text \<open>
  A \<open>datetime\<close> is offset-naive or offset-aware. It is modelled by the count of
  microseconds it stands for: of its wall clock for a naive one, of UTC for an aware one.
  The code compares timestamps and formats them.
\<close>

datatype datetime = Naive int | Aware int

fun instant :: "datetime \<Rightarrow> int" where
  "instant (Naive i) = i"
| "instant (Aware i) = i"

fun aware :: "datetime \<Rightarrow> bool" where
  "aware (Naive i) = False"
| "aware (Aware i) = True"

text \<open>
  The library functions the code calls on strings and timestamps are parameters:
  \<open>str.lower\<close>, \<open>int(s)\<close> (\<open>None\<close> where Python raises \<open>ValueError\<close>),
  \<open>datetime.isoformat\<close> and \<open>str(datetime)\<close>.
\<close>

record builtins =
  str_lower :: "string \<Rightarrow> string"
  int_of_str :: "string \<Rightarrow> int option"
  isoformat :: "datetime \<Rightarrow> string"
  str_datetime :: "datetime \<Rightarrow> string"

datatype exn = TypeError | ValueError | ServiceError string

text \<open>
  \<open>a < b\<close> and \<open>a <= b\<close> on datetimes: two naive ones and two aware ones are
  ordered by their instants; comparing a naive with an aware one raises \<open>TypeError\<close>.
\<close>

definition dt_less :: "datetime \<Rightarrow> datetime \<Rightarrow> exn + bool" where
  "dt_less a b = (if aware a = aware b then Inr (instant a < instant b) else Inl TypeError)"

definition dt_le :: "datetime \<Rightarrow> datetime \<Rightarrow> exn + bool" where
  "dt_le a b = (if aware a = aware b then Inr (instant a \<le> instant b) else Inl TypeError)"

section \<open>Data of the messaging service\<close>

record message =
  m_id :: int
  m_sender_id :: pyval
  m_text :: pyval
  m_date :: "datetime option"

record user =
  u_id :: int
  u_username :: pyval
  u_first_name :: pyval
  u_last_name :: pyval

record dialog =
  d_name :: string
  d_id :: int

datatype json =
  JNull | JBool bool | JInt int | JStr string | JArr "json list" | JObj "(string \<times> json) list"

fun to_json :: "pyval \<Rightarrow> json" where
  "to_json PyNone = JNull"
| "to_json (PyBool b) = JBool b"
| "to_json (PyInt i) = JInt i"
| "to_json (PyStr s) = JStr s"

section \<open>The process environment and the client of the shell\<close>

text \<open>
  What a command does besides returning is recorded in the environment: the lines
  printed, the calls made on the client (in order), the state \<open>world\<close> of the
  messaging service that those calls read and change, the files written (a file written
  by \<open>json.dump\<close> holds the JSON document that \<open>json.load\<close> reads back from it),
  the directories created, and the reading of the clock as
  \<open>strftime("%Y%m%d%H%M%S")\<close> formats it.
\<close>

datatype call =
  Get_chat_id string
| Get_all_messages pyval pyval
| Get_users pyval
| Delete_messages pyval "int list"

record 'w proc =
  world :: 'w
  out :: "string list"
  calls :: "call list"
  files :: "string \<rightharpoonup> json"
  dirs :: "string set"
  now_stamp :: string

text \<open>
  The four methods \<open>Cli\<close> calls on \<open>self.client\<close>: \<open>get_chat_id\<close>,
  \<open>get_all_messages\<close>, \<open>get_users\<close> and \<open>delete_messages\<close>. Each reads and changes
  the state of the service and either raises (\<open>Inl\<close>) or returns (\<open>Inr\<close>).
\<close>

record 'w facade =
  client_get_chat_id :: "string \<Rightarrow> 'w \<Rightarrow> (exn + pyval) \<times> 'w"
  client_get_all_messages :: "pyval \<Rightarrow> pyval \<Rightarrow> 'w \<Rightarrow> (exn + message list) \<times> 'w"
  client_get_users :: "pyval \<Rightarrow> 'w \<Rightarrow> (exn + user list) \<times> 'w"
  client_delete_messages :: "pyval \<Rightarrow> int list \<Rightarrow> 'w \<Rightarrow> (exn + pyval) \<times> 'w"

definition print_line :: "string \<Rightarrow> 'w proc \<Rightarrow> 'w proc" where
  "print_line s p = p\<lparr>out := out p @ [s]\<rparr>"

definition call_get_chat_id ::
  "'w facade \<Rightarrow> string \<Rightarrow> 'w proc \<Rightarrow> (exn + pyval) \<times> 'w proc" where
  "call_get_chat_id fc name p =
     (case client_get_chat_id fc name (world p) of
        (r, w) \<Rightarrow> (r, p\<lparr>world := w, calls := calls p @ [Get_chat_id name]\<rparr>))"

definition call_get_all_messages ::
  "'w facade \<Rightarrow> pyval \<Rightarrow> pyval \<Rightarrow> 'w proc \<Rightarrow> (exn + message list) \<times> 'w proc" where
  "call_get_all_messages fc chat_id n p =
     (case client_get_all_messages fc chat_id n (world p) of
        (r, w) \<Rightarrow> (r, p\<lparr>world := w, calls := calls p @ [Get_all_messages chat_id n]\<rparr>))"

definition call_get_users ::
  "'w facade \<Rightarrow> pyval \<Rightarrow> 'w proc \<Rightarrow> (exn + user list) \<times> 'w proc" where
  "call_get_users fc chat_id p =
     (case client_get_users fc chat_id (world p) of
        (r, w) \<Rightarrow> (r, p\<lparr>world := w, calls := calls p @ [Get_users chat_id]\<rparr>))"

definition call_delete_messages ::
  "'w facade \<Rightarrow> pyval \<Rightarrow> int list \<Rightarrow> 'w proc \<Rightarrow> (exn + pyval) \<times> 'w proc" where
  "call_delete_messages fc chat_id ids p =
     (case client_delete_messages fc chat_id ids (world p) of
        (r, w) \<Rightarrow> (r, p\<lparr>world := w, calls := calls p @ [Delete_messages chat_id ids]\<rparr>))"

section \<open>The shell (class Cli)\<close>

record cli =
  running :: bool
  current :: pyval
  limit :: pyval

text \<open>
  A command returns \<open>None\<close> when it returns normally and \<open>Some e\<close> when the
  exception \<open>e\<close> leaves it, together with the shell and the environment at that point.
\<close>

type_synonym 'w outcome = "exn option \<times> cli \<times> 'w proc"

definition init :: "pyval \<Rightarrow> cli" where
  "init lim =
     \<lparr>running = True, current = PyNone, limit = (if truthy lim then lim else PyInt 1000)\<rparr>"

definition cmd_sel :: "'w facade \<Rightarrow> string list \<Rightarrow> cli \<Rightarrow> 'w proc \<Rightarrow> 'w outcome" where
  "cmd_sel fc args self p =
     (if args = [] then (None, self, print_line ''Usage: select <chat-name>'' p)
      else
        let name = join '' '' args in
        case call_get_chat_id fc name p of
          (Inl e, p1) \<Rightarrow> (Some e, self, p1)
        | (Inr chat_id, p1) \<Rightarrow>
            if chat_id = PyNone then (None, self, print_line ''Chat not found.'' p1)
            else (None, self\<lparr>current := chat_id\<rparr>, print_line (''Chat selected: '' @ name) p1))"

definition parse_limit :: "builtins \<Rightarrow> cli \<Rightarrow> string list \<Rightarrow> pyval \<times> pyval" where
  "parse_limit py self args =
     (if args = [] then (PyNone, PyNone)
      else
        let target = PyStr (str_lower py (args ! 0)) in
        if length args = 1 then (target, limit self)
        else
          case int_of_str py (args ! 1) of
            Some n \<Rightarrow> (target, PyInt n)
          | None \<Rightarrow> (PyNone, PyNone))"

definition message_targets :: "pyval list" where
  "message_targets = [PyStr ''m'', PyStr ''msg'', PyStr ''message'', PyStr ''messages'']"

definition user_targets :: "pyval list" where
  "user_targets = [PyStr ''u'', PyStr ''user'', PyStr ''users'']"

definition list_messages :: "'w facade \<Rightarrow> pyval \<Rightarrow> pyval \<Rightarrow> cli \<Rightarrow> 'w proc \<Rightarrow> 'w outcome" where
  "list_messages fc chat_id n self p =
     (case call_get_all_messages fc chat_id n p of
        (Inl e, p1) \<Rightarrow> (Some e, self, p1)
      | (Inr msgs, p1) \<Rightarrow>
          (None, self,
           foldl (\<lambda>q m. print_line (''[id='' @ str_int (m_id m) @ ''] sender='' @ py_str (m_sender_id m)
                                   @ '' text='' @ py_str (m_text m)) q) p1 msgs))"

definition list_users :: "'w facade \<Rightarrow> pyval \<Rightarrow> cli \<Rightarrow> 'w proc \<Rightarrow> 'w outcome" where
  "list_users fc chat_id self p =
     (case call_get_users fc chat_id p of
        (Inl e, p1) \<Rightarrow> (Some e, self, p1)
      | (Inr users, p1) \<Rightarrow>
          (None, self,
           foldl (\<lambda>q u. print_line (''[id='' @ str_int (u_id u) @ ''] username='' @ py_str (u_username u)
                                   @ '' first_name='' @ py_str (u_first_name u)
                                   @ '' last_name='' @ py_str (u_last_name u)) q) p1 users))"

definition message_record :: "builtins \<Rightarrow> message \<Rightarrow> json" where
  "message_record py m =
     JObj [(''id'', JInt (m_id m)),
           (''from'', to_json (m_sender_id m)),
           (''text'', to_json (m_text m)),
           (''date'', (case m_date m of Some d \<Rightarrow> JStr (isoformat py d) | None \<Rightarrow> JNull))]"

definition user_record :: "user \<Rightarrow> json" where
  "user_record u =
     JObj [(''id'', JInt (u_id u)),
           (''username'', to_json (u_username u)),
           (''first_name'', to_json (u_first_name u)),
           (''last_name'', to_json (u_last_name u))]"

definition write_json :: "string \<Rightarrow> json \<Rightarrow> 'w proc \<Rightarrow> 'w proc" where
  "write_json path doc p = p\<lparr>files := (files p)(path \<mapsto> doc)\<rparr>"

definition makedirs :: "string \<Rightarrow> 'w proc \<Rightarrow> 'w proc" where
  "makedirs d p = p\<lparr>dirs := insert d (dirs p)\<rparr>"

definition save_messages ::
  "builtins \<Rightarrow> 'w facade \<Rightarrow> pyval \<Rightarrow> pyval \<Rightarrow> cli \<Rightarrow> 'w proc \<Rightarrow> 'w outcome" where
  "save_messages py fc chat_id n self p =
     (case call_get_all_messages fc chat_id n p of
        (Inl e, p1) \<Rightarrow> (Some e, self, p1)
      | (Inr msgs, p1) \<Rightarrow>
          let data = map (message_record py) msgs;
              p2 = makedirs ''out'' p1;
              ts = now_stamp p2;
              path = ''out/messages_'' @ ts @ ''.json'';
              p3 = write_json path (JArr data) p2
          in (None, self,
              print_line (''Saved '' @ str_nat (length data) @ '' messages to '' @ path) p3))"

definition save_users :: "'w facade \<Rightarrow> pyval \<Rightarrow> cli \<Rightarrow> 'w proc \<Rightarrow> 'w outcome" where
  "save_users fc chat_id self p =
     (case call_get_users fc chat_id p of
        (Inl e, p1) \<Rightarrow> (Some e, self, p1)
      | (Inr users, p1) \<Rightarrow>
          let data = map user_record users;
              p2 = makedirs ''out'' p1;
              ts = now_stamp p2;
              path = ''out/users_'' @ ts @ ''.json'';
              p3 = write_json path (JArr data) p2
          in (None, self,
              print_line (''Saved '' @ str_nat (length data) @ '' users to '' @ path) p3))"

definition delete_messages :: "'w facade \<Rightarrow> pyval \<Rightarrow> pyval \<Rightarrow> cli \<Rightarrow> 'w proc \<Rightarrow> 'w outcome" where
  "delete_messages fc chat_id n self p =
     (case call_get_all_messages fc chat_id n p of
        (Inl e, p1) \<Rightarrow> (Some e, self, p1)
      | (Inr msgs, p1) \<Rightarrow>
          let ids = map m_id msgs in
          if ids = [] then (None, self, print_line ''No messages to delete.'' p1)
          else
            case call_delete_messages fc chat_id ids p1 of
              (Inl e, p2) \<Rightarrow> (Some e, self, p2)
            | (Inr deleted, p2) \<Rightarrow>
                (None, self, print_line (''Deleted '' @ py_str deleted @ '' messages'') p2))"

definition cmd_list :: "builtins \<Rightarrow> 'w facade \<Rightarrow> string list \<Rightarrow> cli \<Rightarrow> 'w proc \<Rightarrow> 'w outcome" where
  "cmd_list py fc args self p =
     (case parse_limit py self args of
        (target, count) \<Rightarrow>
          if \<not> truthy target then (None, self, print_line ''Usage: list messages|users [N]'' p)
          else if \<not> truthy (current self) then (None, self, print_line ''No chat selected'' p)
          else if target \<in> set message_targets then list_messages fc (current self) count self p
          else if target \<in> set user_targets then list_users fc (current self) self p
          else (None, self, print_line ''Unknown list target. Use messages|users.'' p))"

definition cmd_save :: "builtins \<Rightarrow> 'w facade \<Rightarrow> string list \<Rightarrow> cli \<Rightarrow> 'w proc \<Rightarrow> 'w outcome" where
  "cmd_save py fc args self p =
     (case parse_limit py self args of
        (target, count) \<Rightarrow>
          if \<not> truthy target then (None, self, print_line ''Usage: save messages|users [N]'' p)
          else if \<not> truthy (current self) then (None, self, print_line ''No chat selected'' p)
          else if target \<in> set message_targets then save_messages py fc (current self) count self p
          else if target \<in> set user_targets then save_users fc (current self) self p
          else (None, self, print_line ''Unknown save target. Use messages|users.'' p))"

definition cmd_delete :: "builtins \<Rightarrow> 'w facade \<Rightarrow> string list \<Rightarrow> cli \<Rightarrow> 'w proc \<Rightarrow> 'w outcome" where
  "cmd_delete py fc args self p =
     (case parse_limit py self args of
        (target, count) \<Rightarrow>
          if \<not> truthy target then (None, self, print_line ''Usage: delete messages [N]'' p)
          else if \<not> truthy (current self) then (None, self, print_line ''No chat selected'' p)
          else if target \<in> set message_targets then delete_messages fc (current self) count self p
          else (None, self,
                print_line (''Unknown delete target. Only '' @ [CHR 0x27] @ ''messages'' @ [CHR 0x27]
                            @ '' is supported.'') p))"

section \<open>The client of the messaging service (class Client)\<close>

text \<open>
  The methods of the SDK object that \<open>Client\<close> wraps. \<open>get_messages\<close> takes the
  chat, the limit and the \<open>from_user\<close> filter (\<open>PyNone\<close> when it is not given);
  the SDK's \<open>delete_messages\<close> returns a report of some type \<open>'r\<close>;
  \<open>iter_messages\<close> takes the chat, the offset date and the limit, and yields the
  messages of a finite backward traversal.
\<close>

record ('w, 'r) sdk =
  get_dialogs :: "'w \<Rightarrow> (exn + dialog list) \<times> 'w"
  get_messages :: "pyval \<Rightarrow> pyval \<Rightarrow> pyval \<Rightarrow> 'w \<Rightarrow> (exn + message list) \<times> 'w"
  get_participants :: "pyval \<Rightarrow> 'w \<Rightarrow> (exn + user list) \<times> 'w"
  sdk_delete_messages :: "pyval \<Rightarrow> int list \<Rightarrow> 'w \<Rightarrow> (exn + 'r) \<times> 'w"
  iter_messages :: "pyval \<Rightarrow> datetime \<Rightarrow> pyval \<Rightarrow> 'w \<Rightarrow> message list \<times> 'w"

definition all_chats :: "('w, 'r) sdk \<Rightarrow> 'w \<Rightarrow> (exn + dialog list) \<times> 'w" where
  "all_chats tg w = get_dialogs tg w"

text \<open>The loop of \<open>chat_by_id\<close>: return at the first chat with the name, \<open>None\<close> after the loop.\<close>

fun chat_by_id_loop :: "string \<Rightarrow> dialog list \<Rightarrow> pyval" where
  "chat_by_id_loop name [] = PyNone"
| "chat_by_id_loop name (chat # chats) =
     (if d_name chat = name then PyInt (d_id chat) else chat_by_id_loop name chats)"

definition chat_by_id :: "('w, 'r) sdk \<Rightarrow> string \<Rightarrow> 'w \<Rightarrow> (exn + pyval) \<times> 'w" where
  "chat_by_id tg name w =
     (case all_chats tg w of
        (Inl e, w1) \<Rightarrow> (Inl e, w1)
      | (Inr chats, w1) \<Rightarrow> (Inr (chat_by_id_loop name chats), w1))"

definition all_messages_in_chat ::
  "('w, 'r) sdk \<Rightarrow> pyval \<Rightarrow> pyval \<Rightarrow> 'w \<Rightarrow> (exn + message list) \<times> 'w" where
  "all_messages_in_chat tg chat_id n w = get_messages tg chat_id n PyNone w"

definition my_messages_in_chat ::
  "('w, 'r) sdk \<Rightarrow> pyval \<Rightarrow> pyval \<Rightarrow> 'w \<Rightarrow> (exn + message list) \<times> 'w" where
  "my_messages_in_chat tg chat_id n w = get_messages tg chat_id n (PyStr ''me'') w"

definition all_users :: "('w, 'r) sdk \<Rightarrow> pyval \<Rightarrow> 'w \<Rightarrow> (exn + user list) \<times> 'w" where
  "all_users tg chat_id w = get_participants tg chat_id w"

text \<open>
  \<open>canc_all_messages\<close> awaits the SDK's deletion and has no \<open>return\<close> statement: when
  the SDK does not raise, the method returns \<open>None\<close>.
\<close>

definition canc_all_messages ::
  "('w, 'r) sdk \<Rightarrow> pyval \<Rightarrow> int list \<Rightarrow> 'w \<Rightarrow> (exn + pyval) \<times> 'w" where
  "canc_all_messages tg chat_id message_ids w =
     (case sdk_delete_messages tg chat_id message_ids w of
        (Inl e, w1) \<Rightarrow> (Inl e, w1)
      | (Inr report, w1) \<Rightarrow> (Inr PyNone, w1))"

text \<open>
  The loop of \<open>messages_between_dates\<close> over the messages the traversal yields, with
  the lines printed so far and the records collected so far. Comparing the date
  \<open>None\<close> with a timestamp raises \<open>TypeError\<close>, and so does comparing a naive
  with an aware timestamp; \<open>ts <= m.date <= te\<close> compares \<open>m.date\<close> with \<open>te\<close>
  only when \<open>ts <= m.date\<close> holds.
\<close>

definition info_line :: "builtins \<Rightarrow> pyval \<Rightarrow> message \<Rightarrow> string" where
  "info_line py chat_id m =
     ''[info]: processing message '' @ str_int (m_id m) @ '' in '' @ py_str chat_id
     @ '' in date '' @ (case m_date m of None \<Rightarrow> ''None'' | Some d \<Rightarrow> str_datetime py d)"

fun messages_between_dates_loop ::
  "builtins \<Rightarrow> pyval \<Rightarrow> datetime \<Rightarrow> datetime \<Rightarrow> message list \<Rightarrow> string list \<Rightarrow> message list
   \<Rightarrow> string list \<times> (exn + message list)" where
  "messages_between_dates_loop py chat_id ts te [] printed records = (printed, Inr records)"
| "messages_between_dates_loop py chat_id ts te (m # ms) printed records =
     (let printed1 = printed @ [info_line py chat_id m] in
      case m_date m of
        None \<Rightarrow> (printed1, Inl TypeError)
      | Some d \<Rightarrow>
          (case dt_less d ts of
             Inl e \<Rightarrow> (printed1, Inl e)
           | Inr older \<Rightarrow>
               if older then (printed1, Inr records)
               else
                 (case dt_le ts d of
                    Inl e \<Rightarrow> (printed1, Inl e)
                  | Inr after_start \<Rightarrow>
                      if \<not> after_start
                      then messages_between_dates_loop py chat_id ts te ms printed1 records
                      else
                        (case dt_le d te of
                           Inl e \<Rightarrow> (printed1, Inl e)
                         | Inr before_end \<Rightarrow>
                             if before_end
                             then messages_between_dates_loop py chat_id ts te ms printed1
                                    (records @ [m])
                             else messages_between_dates_loop py chat_id ts te ms printed1
                                    records))))"

definition messages_between_dates ::
  "builtins \<Rightarrow> ('w, 'r) sdk \<Rightarrow> pyval \<Rightarrow> datetime \<Rightarrow> datetime \<Rightarrow> pyval \<Rightarrow> 'w
   \<Rightarrow> (string list \<times> (exn + message list)) \<times> 'w" where
  "messages_between_dates py tg chat_id ts te lim w =
     (case iter_messages tg chat_id te lim w of
        (ms, w1) \<Rightarrow> (messages_between_dates_loop py chat_id ts te ms [] [], w1))"

text \<open>
  The methods that class \<open>Client\<close> defines, and the methods that \<open>Cli\<close> calls
  on its client, by name.
\<close>

definition client_methods :: "string list" where
  "client_methods =
     [''__init__'', ''connect'', ''me'', ''disconnect'', ''all_chats'', ''chat_by_id'',
      ''all_messages_in_chat'', ''my_messages_in_chat'', ''all_users'', ''canc_all_messages'',
      ''messages_between_dates'']"

definition cli_client_calls :: "string list" where
  "cli_client_calls = [''get_chat_id'', ''get_all_messages'', ''get_users'', ''delete_messages'']"

section \<open>The specification's wording\<close>

text \<open>
  The argument parser as the specification states it, case by case: no argument, one
  argument, two or more arguments.
\<close>

definition parse_limit_spec :: "builtins \<Rightarrow> pyval \<Rightarrow> string list \<Rightarrow> pyval \<times> pyval" where
  "parse_limit_spec py default_limit args =
     (case args of
        [] \<Rightarrow> (PyNone, PyNone)
      | [a] \<Rightarrow> (PyStr (str_lower py a), default_limit)
      | a # b # rest \<Rightarrow>
          (case int_of_str py b of
             None \<Rightarrow> (PyNone, PyNone)
           | Some n \<Rightarrow> (PyStr (str_lower py a), PyInt n)))"

text \<open>Chat resolution as the specification states it: the identifier of the first chat
  whose name is the requested one, or none.\<close>

definition resolve_chat_spec :: "string \<Rightarrow> dialog list \<Rightarrow> pyval" where
  "resolve_chat_spec name chats =
     (case find (\<lambda>chat. d_name chat = name) chats of
        None \<Rightarrow> PyNone
      | Some chat \<Rightarrow> PyInt (d_id chat))"

text \<open>
  The date-range fetch as the specification states it: of the messages met before the
  first one strictly older than the start, those whose timestamp lies in the range, in the
  order met.
\<close>

definition older_than :: "datetime \<Rightarrow> message \<Rightarrow> bool" where
  "older_than ts m = (case m_date m of None \<Rightarrow> False | Some d \<Rightarrow> dt_less d ts = Inr True)"

definition in_range :: "datetime \<Rightarrow> datetime \<Rightarrow> message \<Rightarrow> bool" where
  "in_range ts te m =
     (case m_date m of None \<Rightarrow> False | Some d \<Rightarrow> dt_le ts d = Inr True \<and> dt_le d te = Inr True)"

definition date_range_spec :: "datetime \<Rightarrow> datetime \<Rightarrow> message list \<Rightarrow> message list" where
  "date_range_spec ts te ms = filter (in_range ts te) (takeWhile (\<lambda>m. \<not> older_than ts m) ms)"

fun keys :: "json \<Rightarrow> string list" where
  "keys (JObj kvs) = map fst kvs"
| "keys doc = []"

fun field :: "string \<Rightarrow> json \<Rightarrow> json option" where
  "field k (JObj kvs) = map_of kvs k"
| "field k doc = None"

section \<open>A concrete service, for evaluating the definitions\<close>

definition ascii_lower :: "string \<Rightarrow> string" where
  "ascii_lower s =
     map (\<lambda>c. case map_of (zip ''ABCDEFGHIJKLMNOPQRSTUVWXYZ'' ''abcdefghijklmnopqrstuvwxyz'') c of
                 None \<Rightarrow> c | Some l \<Rightarrow> l) s"

fun decimal :: "string \<Rightarrow> nat \<Rightarrow> nat option" where
  "decimal [] acc = Some acc"
| "decimal (c # cs) acc =
     (case map_of (zip ''0123456789'' [0, 1, 2, 3, 4, 5, 6, 7, 8, 9]) c of
        None \<Rightarrow> None
      | Some d \<Rightarrow> decimal cs (10 * acc + d))"

definition ascii_int :: "string \<Rightarrow> int option" where
  "ascii_int s =
     (case s of
        [] \<Rightarrow> None
      | c # cs \<Rightarrow>
          if c = CHR ''-'' \<and> cs \<noteq> [] then map_option (\<lambda>n. - int n) (decimal cs 0)
          else map_option int (decimal s 0))"

definition ascii_builtins :: builtins where
  "ascii_builtins =
     \<lparr>str_lower = ascii_lower, int_of_str = ascii_int,
      isoformat = (\<lambda>d. ''T'' @ str_int (instant d)),
      str_datetime = (\<lambda>d. ''D'' @ str_int (instant d))\<rparr>"

definition dated_messages :: "message list" where
  "dated_messages =
     [\<lparr>m_id = 4, m_sender_id = PyInt 11, m_text = PyStr ''d'', m_date = Some (Aware 40)\<rparr>,
      \<lparr>m_id = 3, m_sender_id = PyInt 12, m_text = PyStr ''c'', m_date = Some (Aware 30)\<rparr>,
      \<lparr>m_id = 2, m_sender_id = PyNone, m_text = PyStr [], m_date = Some (Aware 20)\<rparr>,
      \<lparr>m_id = 1, m_sender_id = PyInt 11, m_text = PyStr ''a'', m_date = Some (Aware 10)\<rparr>]"

definition undated_messages :: "message list" where
  "undated_messages =
     [\<lparr>m_id = 7, m_sender_id = PyInt 11, m_text = PyStr ''x'', m_date = Some (Aware 25)\<rparr>,
      \<lparr>m_id = 6, m_sender_id = PyInt 12, m_text = PyNone, m_date = None\<rparr>,
      \<lparr>m_id = 5, m_sender_id = PyInt 11, m_text = PyStr ''z'', m_date = Some (Aware 15)\<rparr>]"

definition some_chats :: "dialog list" where
  "some_chats =
     [\<lparr>d_name = ''team chat'', d_id = 7\<rparr>, \<lparr>d_name = ''General'', d_id = 5\<rparr>,
      \<lparr>d_name = ''Saved'', d_id = 0\<rparr>, \<lparr>d_name = ''General'', d_id = 9\<rparr>]"

text \<open>
  A service with one stock of messages (its state), which every chat shows: deleting
  removes the messages with the given identifiers and reports how many were removed.
\<close>

definition stock_sdk :: "(message list, nat) sdk" where
  "stock_sdk =
     \<lparr>get_dialogs = (\<lambda>w. (Inr some_chats, w)),
      get_messages = (\<lambda>chat_id n from_user w. (Inr w, w)),
      get_participants = (\<lambda>chat_id w. (Inr [], w)),
      sdk_delete_messages =
        (\<lambda>chat_id ids w.
           (Inr (length (filter (\<lambda>m. m_id m \<in> set ids) w)),
            filter (\<lambda>m. m_id m \<notin> set ids) w)),
      iter_messages = (\<lambda>chat_id te lim w. (w, w))\<rparr>"

text \<open>A client of the shell with the four methods \<open>Cli\<close> calls, over the same stock
  of messages: it resolves names among \<open>some_chats\<close>, fetches the whole stock, and its
  deletion returns the number of messages removed.\<close>

definition counting_facade :: "message list facade" where
  "counting_facade =
     \<lparr>client_get_chat_id = (\<lambda>name w. (Inr (chat_by_id_loop name some_chats), w)),
      client_get_all_messages = (\<lambda>chat_id n w. (Inr w, w)),
      client_get_users = (\<lambda>chat_id w. (Inr [], w)),
      client_delete_messages =
        (\<lambda>chat_id ids w.
           (Inr (PyInt (int (length (filter (\<lambda>m. m_id m \<in> set ids) w)))),
            filter (\<lambda>m. m_id m \<notin> set ids) w))\<rparr>"

definition fresh_proc :: "'w \<Rightarrow> 'w proc" where
  "fresh_proc w =
     \<lparr>world = w, out = [], calls = [], files = Map.empty, dirs = {}, now_stamp = ''20240102030405''\<rparr>"

section \<open>The argument parser of list, save and delete\<close>

lemma parse_limit_refines:
  "parse_limit py self args = parse_limit_spec py (limit self) args"
proof (cases args)
  case Nil
  then show ?thesis by (simp add: parse_limit_def parse_limit_spec_def)
next
  case (Cons a rest)
  show ?thesis
  proof (cases rest)
    case Nil
    with Cons show ?thesis by (simp add: parse_limit_def parse_limit_spec_def)
  next
    case (Cons b rest')
    with \<open>args = a # rest\<close> show ?thesis
      by (simp add: parse_limit_def parse_limit_spec_def split: option.splits)
  qed
qed

text \<open>
  C3: \<open>parse_limit\<close> is the parser the specification describes. No argument gives
  (no target, no count); one argument gives that argument lower-cased and the default
  limit of the shell; with two or more arguments the target is the first argument
  lower-cased and the count the second one read as an integer, and when the second
  argument is not an integer both target and count are \<open>None\<close>, so that each of
  list, save and delete prints its usage line, calls nothing and changes nothing else.
\<close>

theorem parse_limit_cases:
  "parse_limit py self args = parse_limit_spec py (limit self) args \<and>
   parse_limit py self [] = (PyNone, PyNone) \<and>
   parse_limit py self [a] = (PyStr (str_lower py a), limit self) \<and>
   (int_of_str py b = Some n \<longrightarrow>
      parse_limit py self (a # b # rest) = (PyStr (str_lower py a), PyInt n)) \<and>
   (int_of_str py c = None \<longrightarrow>
      parse_limit py self (a # c # rest) = (PyNone, PyNone) \<and>
      cmd_list py fc (a # c # rest) self p =
        (None, self, print_line ''Usage: list messages|users [N]'' p) \<and>
      cmd_save py fc (a # c # rest) self p =
        (None, self, print_line ''Usage: save messages|users [N]'' p) \<and>
      cmd_delete py fc (a # c # rest) self p =
        (None, self, print_line ''Usage: delete messages [N]'' p))"
  by (simp add: parse_limit_refines parse_limit_spec_def cmd_list_def cmd_save_def cmd_delete_def)

theorem parse_limit_cases_witness:
  "int_of_str ascii_builtins ''25'' = Some 25 \<and>
   int_of_str ascii_builtins ''abc'' = None \<and>
   parse_limit ascii_builtins (init PyNone) [''Messages''] = (PyStr ''messages'', PyInt 1000) \<and>
   parse_limit ascii_builtins (init PyNone) [''Messages'', ''25''] = (PyStr ''messages'', PyInt 25) \<and>
   parse_limit ascii_builtins (init PyNone) [''Messages'', ''abc''] = (PyNone, PyNone) \<and>
   cmd_list ascii_builtins counting_facade [''Messages'', ''abc''] (init PyNone) (fresh_proc dated_messages) =
     (None, init PyNone, print_line ''Usage: list messages|users [N]'' (fresh_proc dated_messages))"
proof -
  have some: "int_of_str ascii_builtins ''25'' = Some 25"
    by (simp add: ascii_builtins_def ascii_int_def)
  have none: "int_of_str ascii_builtins ''abc'' = None"
    by (simp add: ascii_builtins_def ascii_int_def)
  have low: "str_lower ascii_builtins ''Messages'' = ''messages''"
    by (simp add: ascii_builtins_def ascii_lower_def)
  have lim: "limit (init PyNone) = PyInt 1000"
    by (simp add: init_def)
  from parse_limit_cases [of ascii_builtins "init PyNone" "[]" "''Messages''" "''25''" 25 "[]" "''abc''"
      counting_facade "fresh_proc dated_messages"] some none low lim
  show ?thesis by simp
qed

section \<open>Chat resolution\<close>

lemma chat_by_id_loop_refines:
  "chat_by_id_loop name chats = resolve_chat_spec name chats"
  by (induction chats) (simp_all add: resolve_chat_spec_def)

text \<open>
  C4: chat resolution scans the chat list of the account from the front and returns the
  identifier of the first chat whose name is equal to the requested name, character by
  character (so a name that differs only in case does not match), and \<open>None\<close> when no
  chat has that name.
\<close>

theorem chat_by_id_first_exact_match:
  "chat_by_id_loop name chats = resolve_chat_spec name chats \<and>
   (chat_by_id_loop name chats = PyNone \<longleftrightarrow> (\<forall>chat \<in> set chats. d_name chat \<noteq> name)) \<and>
   (chat_by_id_loop name chats = PyInt i \<longleftrightarrow>
      (\<exists>k < length chats. d_name (chats ! k) = name \<and> d_id (chats ! k) = i \<and>
         (\<forall>j < k. d_name (chats ! j) \<noteq> name))) \<and>
   (get_dialogs tg w = (Inr chats, w1) \<longrightarrow>
      chat_by_id tg name w = (Inr (chat_by_id_loop name chats), w1))"
proof -
  have none: "chat_by_id_loop name chats = PyNone \<longleftrightarrow> (\<forall>chat \<in> set chats. d_name chat \<noteq> name)"
    by (induction chats) simp_all
  have some: "chat_by_id_loop name chats = PyInt i \<longleftrightarrow>
      (\<exists>k < length chats. d_name (chats ! k) = name \<and> d_id (chats ! k) = i \<and>
         (\<forall>j < k. d_name (chats ! j) \<noteq> name))" (is "?lhs \<longleftrightarrow> ?rhs")
  proof
    assume ?lhs
    then obtain chat where found: "find (\<lambda>chat. d_name chat = name) chats = Some chat"
      and ident: "d_id chat = i"
      by (auto simp: chat_by_id_loop_refines resolve_chat_spec_def split: option.splits)
    from found obtain k where "k < length chats" "d_name (chats ! k) = name" "chat = chats ! k"
      "\<forall>j < k. d_name (chats ! j) \<noteq> name"
      by (auto simp: find_Some_iff)
    with ident show ?rhs by blast
  next
    assume ?rhs
    then obtain k where k: "k < length chats" "d_name (chats ! k) = name" "d_id (chats ! k) = i"
      "\<forall>j < k. d_name (chats ! j) \<noteq> name"
      by blast
    then have "find (\<lambda>chat. d_name chat = name) chats = Some (chats ! k)"
      unfolding find_Some_iff by blast
    with k show ?lhs
      by (simp add: chat_by_id_loop_refines resolve_chat_spec_def)
  qed
  show ?thesis
    using none some by (simp add: chat_by_id_loop_refines chat_by_id_def all_chats_def)
qed

theorem chat_by_id_first_exact_match_witness:
  "get_dialogs stock_sdk dated_messages = (Inr some_chats, dated_messages) \<and>
   chat_by_id stock_sdk ''General'' dated_messages = (Inr (PyInt 5), dated_messages) \<and>
   chat_by_id stock_sdk ''Team Chat'' dated_messages = (Inr PyNone, dated_messages)"
proof -
  have d: "get_dialogs stock_sdk dated_messages = (Inr some_chats, dated_messages)"
    by (simp add: stock_sdk_def)
  have g: "chat_by_id_loop ''General'' some_chats = PyInt 5"
    by (simp add: some_chats_def)
  have t: "chat_by_id_loop ''Team Chat'' some_chats = PyNone"
    by (simp add: some_chats_def)
  from chat_by_id_first_exact_match [of "''General''" some_chats 5 stock_sdk dated_messages dated_messages]
       chat_by_id_first_exact_match [of "''Team Chat''" some_chats 5 stock_sdk dated_messages dated_messages]
       d g t
  show ?thesis by simp
qed

section \<open>Start of the shell\<close>

text \<open>
  C8, as the code has it: the default limit of a new shell is the supplied limit when
  that is truthy (every integer other than 0, negative ones included) and 1000 when the
  supplied limit is \<open>None\<close> or 0; it is never \<open>None\<close> and never 0. A new shell
  has no chat selected and is running.
\<close>

theorem init_default_limit:
  "limit (init lim) = (if truthy lim then lim else PyInt 1000) \<and>
   truthy (limit (init lim)) \<and>
   (n \<noteq> 0 \<longrightarrow> limit (init (PyInt n)) = PyInt n) \<and>
   limit (init (PyInt 0)) = PyInt 1000 \<and>
   limit (init PyNone) = PyInt 1000 \<and>
   current (init lim) = PyNone \<and> running (init lim)"
  by (simp add: init_def)

theorem init_default_limit_witness:
  "(7::int) \<noteq> 0 \<and> limit (init (PyInt 7)) = PyInt 7 \<and> truthy (limit (init (PyInt 7)))"
  using init_default_limit [of "PyInt 7" 7] by simp

text \<open>A negative supplied limit is stored as it is: the default limit is then neither
  positive nor 1000.\<close>

theorem init_negative_limit_counterexample:
  "limit (init (PyInt (- 5))) = PyInt (- 5) \<and> limit (init (PyInt (- 5))) \<noteq> PyInt 1000 \<and> \<not> (0::int) < - 5"
  by (simp add: init_def)

section \<open>The select command\<close>

lemma cmd_sel_cases:
  "cmd_sel fc args self p =
     (if args = [] then (None, self, print_line ''Usage: select <chat-name>'' p)
      else case client_get_chat_id fc (join '' '' args) (world p) of
        (Inl e, w) \<Rightarrow> (Some e, self, p\<lparr>world := w, calls := calls p @ [Get_chat_id (join '' '' args)]\<rparr>)
      | (Inr v, w) \<Rightarrow>
          if v = PyNone
          then (None, self, print_line ''Chat not found.''
                  (p\<lparr>world := w, calls := calls p @ [Get_chat_id (join '' '' args)]\<rparr>))
          else (None, self\<lparr>current := v\<rparr>, print_line (''Chat selected: '' @ join '' '' args)
                  (p\<lparr>world := w, calls := calls p @ [Get_chat_id (join '' '' args)]\<rparr>)))"
  by (simp add: cmd_sel_def call_get_chat_id_def Let_def split: prod.splits sum.splits)

text \<open>
  C5: when the client finds no chat of the requested name (it returns \<open>None\<close>),
  select prints "Chat not found." and leaves the shell as it was, the current chat
  included. The shell changes under select only when the client returned an identifier
  other than \<open>None\<close>, and then only in its current chat, which becomes that
  identifier.
\<close>

theorem select_not_found_keeps_selection:
  "(args \<noteq> [] \<and> client_get_chat_id fc (join '' '' args) (world p) = (Inr PyNone, w) \<longrightarrow>
      cmd_sel fc args self p =
        (None, self, print_line ''Chat not found.''
           (p\<lparr>world := w, calls := calls p @ [Get_chat_id (join '' '' args)]\<rparr>))) \<and>
   (cmd_sel fc args self p = (r, self', p') \<and> self' \<noteq> self \<longrightarrow>
      args \<noteq> [] \<and>
      (\<exists>v w'. client_get_chat_id fc (join '' '' args) (world p) = (Inr v, w') \<and> v \<noteq> PyNone \<and>
         self' = self\<lparr>current := v\<rparr>))"
  by (auto simp: cmd_sel_cases split: prod.splits sum.splits if_splits)

theorem select_not_found_keeps_selection_witness:
  "client_get_chat_id counting_facade (join '' '' [''Team'', ''Chat'']) (world (fresh_proc dated_messages))
     = (Inr PyNone, dated_messages) \<and>
   cmd_sel counting_facade [''Team'', ''Chat''] ((init PyNone)\<lparr>current := PyInt 5\<rparr>) (fresh_proc dated_messages) =
     (None, (init PyNone)\<lparr>current := PyInt 5\<rparr>,
      print_line ''Chat not found.''
        ((fresh_proc dated_messages)\<lparr>world := dated_messages, calls := [Get_chat_id ''Team Chat'']\<rparr>)) \<and>
   cmd_sel counting_facade [''General''] ((init PyNone)\<lparr>current := PyInt 7\<rparr>) (fresh_proc dated_messages) =
     (None, (init PyNone)\<lparr>current := PyInt 5\<rparr>,
      print_line ''Chat selected: General''
        ((fresh_proc dated_messages)\<lparr>world := dated_messages, calls := [Get_chat_id ''General'']\<rparr>)) \<and>
   (init PyNone)\<lparr>current := PyInt 5\<rparr> \<noteq> (init PyNone)\<lparr>current := PyInt 7\<rparr>"
proof -
  have a: "client_get_chat_id counting_facade (join '' '' [''Team'', ''Chat'']) (world (fresh_proc dated_messages))
     = (Inr PyNone, dated_messages)"
    by (simp add: counting_facade_def
        some_chats_def fresh_proc_def)
  have b: "cmd_sel counting_facade [''General''] ((init PyNone)\<lparr>current := PyInt 7\<rparr>) (fresh_proc dated_messages) =
     (None, (init PyNone)\<lparr>current := PyInt 5\<rparr>,
      print_line ''Chat selected: General''
        ((fresh_proc dated_messages)\<lparr>world := dated_messages, calls := [Get_chat_id ''General'']\<rparr>))"
    by (simp add: cmd_sel_cases counting_facade_def some_chats_def fresh_proc_def)
  have c: "(init PyNone)\<lparr>current := PyInt 5\<rparr> \<noteq> (init PyNone)\<lparr>current := PyInt 7\<rparr>"
    by (simp add: init_def)
  from select_not_found_keeps_selection [of "[''Team'', ''Chat'']" counting_facade "fresh_proc dated_messages"
      dated_messages "(init PyNone)\<lparr>current := PyInt 5\<rparr>"] a
  have d: "cmd_sel counting_facade [''Team'', ''Chat''] ((init PyNone)\<lparr>current := PyInt 5\<rparr>) (fresh_proc dated_messages) =
     (None, (init PyNone)\<lparr>current := PyInt 5\<rparr>,
      print_line ''Chat not found.''
        ((fresh_proc dated_messages)\<lparr>world := dated_messages, calls := [Get_chat_id ''Team Chat'']\<rparr>))"
    by (simp add: fresh_proc_def)
  from a b c d show ?thesis by simp
qed

section \<open>Commands issued without a selected chat\<close>



text \<open>
  C10: when the client resolves a name to the identifier 0, select stores 0 as the
  current chat and prints the confirmation; with the current chat equal to 0 and a valid
  target, each of list, save and delete prints "No chat selected" and returns without
  any call on the client, because the check is the truth test of the identifier.
\<close>

theorem zero_chat_id_counts_as_unselected:
  "(args \<noteq> [] \<and> client_get_chat_id fc (join '' '' args) (world p) = (Inr (PyInt 0), w) \<longrightarrow>
      cmd_sel fc args self p =
        (None, self\<lparr>current := PyInt 0\<rparr>,
         print_line (''Chat selected: '' @ join '' '' args)
           (p\<lparr>world := w, calls := calls p @ [Get_chat_id (join '' '' args)]\<rparr>))) \<and>
   (current self = PyInt 0 \<and> truthy (fst (parse_limit py self args')) \<longrightarrow>
      cmd_list py fc args' self p = (None, self, print_line ''No chat selected'' p) \<and>
      cmd_save py fc args' self p = (None, self, print_line ''No chat selected'' p) \<and>
      cmd_delete py fc args' self p = (None, self, print_line ''No chat selected'' p) \<and>
      calls (print_line ''No chat selected'' p) = calls p \<and>
      world (print_line ''No chat selected'' p) = world p)"
proof -
  obtain target count where parsed: "parse_limit py self args' = (target, count)"
    by (cases "parse_limit py self args'")
  then show ?thesis
    by (simp add: cmd_sel_cases cmd_list_def cmd_save_def cmd_delete_def print_line_def)
qed

theorem zero_chat_id_counts_as_unselected_witness:
  "client_get_chat_id counting_facade (join '' '' [''Saved'']) (world (fresh_proc dated_messages))
     = (Inr (PyInt 0), dated_messages) \<and>
   cmd_sel counting_facade [''Saved''] (init PyNone) (fresh_proc dated_messages) =
     (None, (init PyNone)\<lparr>current := PyInt 0\<rparr>,
      print_line ''Chat selected: Saved''
        ((fresh_proc dated_messages)\<lparr>world := dated_messages, calls := [Get_chat_id ''Saved'']\<rparr>)) \<and>
   current ((init PyNone)\<lparr>current := PyInt 0\<rparr>) = PyInt 0 \<and>
   truthy (fst (parse_limit ascii_builtins ((init PyNone)\<lparr>current := PyInt 0\<rparr>) [''messages'', ''3''])) \<and>
   cmd_delete ascii_builtins counting_facade [''messages'', ''3''] ((init PyNone)\<lparr>current := PyInt 0\<rparr>)
       (fresh_proc dated_messages) =
     (None, (init PyNone)\<lparr>current := PyInt 0\<rparr>, print_line ''No chat selected'' (fresh_proc dated_messages)) \<and>
   calls (print_line ''No chat selected'' (fresh_proc dated_messages)) = []"
proof -
  have a: "client_get_chat_id counting_facade (join '' '' [''Saved'']) (world (fresh_proc dated_messages))
     = (Inr (PyInt 0), dated_messages)"
    by (simp add: counting_facade_def
        some_chats_def fresh_proc_def)
  have b: "current ((init PyNone)\<lparr>current := PyInt 0\<rparr>) = PyInt 0"
    by simp
  have c: "truthy (fst (parse_limit ascii_builtins ((init PyNone)\<lparr>current := PyInt 0\<rparr>) [''messages'', ''3'']))"
    by (simp add: parse_limit_def ascii_builtins_def ascii_lower_def ascii_int_def)
  have d: "calls (fresh_proc dated_messages) = []" "world (fresh_proc dated_messages) = dated_messages"
    by (simp_all add: fresh_proc_def)
  from zero_chat_id_counts_as_unselected [of "[''Saved'']" counting_facade "fresh_proc dated_messages"
      dated_messages "init PyNone"] a
  have e: "cmd_sel counting_facade [''Saved''] (init PyNone) (fresh_proc dated_messages) =
     (None, (init PyNone)\<lparr>current := PyInt 0\<rparr>,
      print_line ''Chat selected: Saved''
        ((fresh_proc dated_messages)\<lparr>world := dated_messages, calls := [Get_chat_id ''Saved'']\<rparr>))"
    by (simp add: d)
  from zero_chat_id_counts_as_unselected [of "[]" counting_facade "fresh_proc dated_messages"
      dated_messages "(init PyNone)\<lparr>current := PyInt 0\<rparr>" ascii_builtins "[''messages'', ''3'']"] b c d
  have f: "cmd_delete ascii_builtins counting_facade [''messages'', ''3''] ((init PyNone)\<lparr>current := PyInt 0\<rparr>)
       (fresh_proc dated_messages) =
     (None, (init PyNone)\<lparr>current := PyInt 0\<rparr>, print_line ''No chat selected'' (fresh_proc dated_messages))"
    and g: "calls (print_line ''No chat selected'' (fresh_proc dated_messages)) = []"
    by simp_all
  from a b c e f g show ?thesis by simp
qed

section \<open>The delete command\<close>

lemma delete_messages_cases:
  "delete_messages fc chat_id n self p =
     (case client_get_all_messages fc chat_id n (world p) of
        (Inl e, w1) \<Rightarrow> (Some e, self, p\<lparr>world := w1, calls := calls p @ [Get_all_messages chat_id n]\<rparr>)
      | (Inr msgs, w1) \<Rightarrow>
          if msgs = []
          then (None, self, print_line ''No messages to delete.''
                  (p\<lparr>world := w1, calls := calls p @ [Get_all_messages chat_id n]\<rparr>))
          else
            case client_delete_messages fc chat_id (map m_id msgs) w1 of
              (Inl e, w2) \<Rightarrow>
                (Some e, self,
                 p\<lparr>world := w2,
                   calls := calls p @ [Get_all_messages chat_id n, Delete_messages chat_id (map m_id msgs)]\<rparr>)
            | (Inr deleted, w2) \<Rightarrow>
                (None, self, print_line (''Deleted '' @ py_str deleted @ '' messages'')
                   (p\<lparr>world := w2,
                      calls := calls p @ [Get_all_messages chat_id n, Delete_messages chat_id (map m_id msgs)]\<rparr>)))"
  by (simp add: delete_messages_def call_get_all_messages_def call_delete_messages_def Let_def
      split: prod.splits sum.splits)

lemma cmd_delete_messages_target:
  assumes "parse_limit py self args = (target, count)" and "target \<in> set message_targets"
    and "truthy (current self)"
  shows "cmd_delete py fc args self p = delete_messages fc (current self) count self p"
proof -
  from assms(2) have "truthy target"
    by (auto simp: message_targets_def)
  with assms show ?thesis
    by (simp add: cmd_delete_def)
qed

text \<open>
  C6: a delete command on a selected chat whose fetch returns no message prints
  "No messages to delete." and returns; the only call made on the client is the fetch,
  so the deletion is never called.
\<close>

theorem delete_nothing_fetched:
  assumes "parse_limit py self args = (target, count)" and "target \<in> set message_targets"
    and "truthy (current self)"
    and "client_get_all_messages fc (current self) count (world p) = (Inr [], w)"
  shows "cmd_delete py fc args self p =
           (None, self, print_line ''No messages to delete.''
              (p\<lparr>world := w, calls := calls p @ [Get_all_messages (current self) count]\<rparr>)) \<and>
         delete_messages fc (current self) count self p = cmd_delete py fc args self p \<and>
         calls (snd (snd (cmd_delete py fc args self p))) =
           calls p @ [Get_all_messages (current self) count] \<and>
         out (snd (snd (cmd_delete py fc args self p))) = out p @ [''No messages to delete.'']"
proof -
  have fetched: "delete_messages fc (current self) count self p =
           (None, self, print_line ''No messages to delete.''
              (p\<lparr>world := w, calls := calls p @ [Get_all_messages (current self) count]\<rparr>))"
    using assms(4) by (simp add: delete_messages_cases)
  have routed: "cmd_delete py fc args self p = delete_messages fc (current self) count self p"
    by (rule cmd_delete_messages_target [OF assms(1-3)])
  show ?thesis
    unfolding routed fetched by (simp add: print_line_def)
qed

theorem delete_nothing_fetched_witness:
  "parse_limit ascii_builtins ((init PyNone)\<lparr>current := PyInt 5\<rparr>) [''MSG'', ''5''] = (PyStr ''msg'', PyInt 5) \<and>
   PyStr ''msg'' \<in> set message_targets \<and>
   truthy (current ((init PyNone)\<lparr>current := PyInt 5\<rparr>)) \<and>
   client_get_all_messages counting_facade (current ((init PyNone)\<lparr>current := PyInt 5\<rparr>)) (PyInt 5)
       (world (fresh_proc [])) = (Inr [], []) \<and>
   cmd_delete ascii_builtins counting_facade [''MSG'', ''5''] ((init PyNone)\<lparr>current := PyInt 5\<rparr>) (fresh_proc []) =
     (None, (init PyNone)\<lparr>current := PyInt 5\<rparr>,
      print_line ''No messages to delete.''
        ((fresh_proc [])\<lparr>world := [], calls := [Get_all_messages (PyInt 5) (PyInt 5)]\<rparr>))"
proof -
  have a: "parse_limit ascii_builtins ((init PyNone)\<lparr>current := PyInt 5\<rparr>) [''MSG'', ''5''] = (PyStr ''msg'', PyInt 5)"
    by (simp add: parse_limit_def ascii_builtins_def ascii_lower_def ascii_int_def)
  have b: "PyStr ''msg'' \<in> set message_targets"
    by (simp add: message_targets_def)
  have c: "truthy (current ((init PyNone)\<lparr>current := PyInt 5\<rparr>))"
    by simp
  have d: "client_get_all_messages counting_facade (current ((init PyNone)\<lparr>current := PyInt 5\<rparr>)) (PyInt 5)
       (world (fresh_proc [])) = (Inr [], [])"
    by (simp add: counting_facade_def fresh_proc_def)
  have e: "calls (fresh_proc ([] :: message list)) = []"
    by (simp add: fresh_proc_def)
  from delete_nothing_fetched [OF a b c d] a b c d e show ?thesis
    by simp
qed

text \<open>
  What the shell does when the fetch returns messages: it passes the chat and the
  identifiers of the fetched messages, in order, to the deletion of its client, and
  prints "Deleted", the value the client returned as \<open>str\<close> formats it, and
  "messages".
\<close>

lemma delete_messages_passes_ids_and_prints:
  assumes "client_get_all_messages fc chat_id n (world p) = (Inr msgs, w1)" and "msgs \<noteq> []"
    and "client_delete_messages fc chat_id (map m_id msgs) w1 = (Inr deleted, w2)"
  shows "delete_messages fc chat_id n self p =
           (None, self, print_line (''Deleted '' @ py_str deleted @ '' messages'')
              (p\<lparr>world := w2,
                 calls := calls p @ [Get_all_messages chat_id n, Delete_messages chat_id (map m_id msgs)]\<rparr>))"
  using assms by (simp add: delete_messages_cases)

text \<open>The deletion of \<open>Client\<close> never returns a number.\<close>

lemma canc_all_messages_returns_None:
  "fst (canc_all_messages tg chat_id message_ids w) \<noteq> Inr (PyInt k)"
  by (simp add: canc_all_messages_def split: prod.splits sum.splits)

text \<open>With a client whose deletion returns the count, three fetched messages and three
  deletions print "Deleted 3 messages".\<close>

lemma counting_facade_prints_count:
  "cmd_delete ascii_builtins counting_facade [''messages'', ''5''] ((init PyNone)\<lparr>current := PyInt 5\<rparr>)
       (fresh_proc (tl dated_messages)) =
     (None, (init PyNone)\<lparr>current := PyInt 5\<rparr>,
      print_line ''Deleted 3 messages''
        ((fresh_proc (tl dated_messages))\<lparr>world := [],
           calls := [Get_all_messages (PyInt 5) (PyInt 5), Delete_messages (PyInt 5) [3, 2, 1]]\<rparr>))"
proof -
  have a: "parse_limit ascii_builtins ((init PyNone)\<lparr>current := PyInt 5\<rparr>) [''messages'', ''5'']
             = (PyStr ''messages'', PyInt 5)"
    by (simp add: parse_limit_def ascii_builtins_def ascii_lower_def ascii_int_def)
  have b: "PyStr ''messages'' \<in> set message_targets"
    by (simp add: message_targets_def)
  have c: "truthy (current ((init PyNone)\<lparr>current := PyInt 5\<rparr>))"
    by simp
  show ?thesis
    unfolding cmd_delete_messages_target [OF a b c]
    by (simp add: delete_messages_cases counting_facade_def fresh_proc_def dated_messages_def
        str_int_def str_nat.simps)
qed

text \<open>
  None of the four methods that \<open>Cli\<close> calls on its client is a method of
  \<open>Client\<close>: a \<open>Cli\<close> whose client is a \<open>Client\<close> as it stands cannot reach
  the fetch or the deletion.
\<close>

lemma cli_client_calls_not_client_methods:
  "set cli_client_calls \<inter> set client_methods = {}"
  by (simp add: cli_client_calls_def client_methods_def)

text \<open>
  C1, at the input where the code departs from it: the bulk deletion of \<open>Client\<close>,
  called with the chat 5 and the identifiers 3, 2 and 1 on a service that holds these
  three messages. The service removes the three messages and reports 3;
  \<open>canc_all_messages\<close> returns \<open>None\<close>, not the number of messages removed.
\<close>

theorem canc_all_messages_returns_no_count:
  "sdk_delete_messages stock_sdk (PyInt 5) [3, 2, 1] (tl dated_messages) = (Inr 3, []) \<and>
   canc_all_messages stock_sdk (PyInt 5) [3, 2, 1] (tl dated_messages) = (Inr PyNone, [])"
  by (simp add: canc_all_messages_def stock_sdk_def dated_messages_def)

section \<open>The save command\<close>

lemma cmd_save_messages_target:
  assumes "parse_limit py self args = (target, count)" and "target \<in> set message_targets"
    and "truthy (current self)"
  shows "cmd_save py fc args self p = save_messages py fc (current self) count self p"
proof -
  from assms(2) have "truthy target"
    by (auto simp: message_targets_def)
  with assms show ?thesis
    by (simp add: cmd_save_def)
qed

lemma save_messages_fetched:
  assumes "client_get_all_messages fc chat_id n (world p) = (Inr msgs, w)"
  shows "save_messages py fc chat_id n self p =
     (None, self,
      print_line (''Saved '' @ str_nat (length msgs) @ '' messages to out/messages_'' @ now_stamp p @ ''.json'')
        (write_json (''out/messages_'' @ now_stamp p @ ''.json'') (JArr (map (message_record py) msgs))
           (makedirs ''out'' (p\<lparr>world := w, calls := calls p @ [Get_all_messages chat_id n]\<rparr>))))"
  using assms
  by (simp add: save_messages_def call_get_all_messages_def Let_def makedirs_def)

lemma message_record_keys:
  "keys (message_record py m) = [''id'', ''from'', ''text'', ''date''] \<and>
   field ''id'' (message_record py m) = Some (JInt (m_id m)) \<and>
   field ''from'' (message_record py m) = Some (to_json (m_sender_id m)) \<and>
   field ''text'' (message_record py m) = Some (to_json (m_text m)) \<and>
   field ''date'' (message_record py m) =
     Some (case m_date m of None \<Rightarrow> JNull | Some d \<Rightarrow> JStr (isoformat py d))"
  by (simp add: message_record_def)

text \<open>
  C9: after save messages has fetched a list of messages, the file
  \<open>out/messages_<stamp>.json\<close> holds an array with one element for each fetched
  message, in order; each element is an object with exactly the keys id, from, text and
  date, in which date is the ISO-8601 string of the timestamp of the message, or null when
  the message has no timestamp. The command prints the number of messages saved and the
  path.
\<close>

theorem save_messages_round_trip:
  assumes "parse_limit py self args = (target, count)" and "target \<in> set message_targets"
    and "truthy (current self)"
    and "client_get_all_messages fc (current self) count (world p) = (Inr msgs, w)"
    and "cmd_save py fc args self p = (r, self', p')"
  shows "r = None \<and> self' = self \<and>
         (\<exists>elems. files p' (''out/messages_'' @ now_stamp p @ ''.json'') = Some (JArr elems) \<and>
            length elems = length msgs \<and>
            (\<forall>i < length msgs.
               keys (elems ! i) = [''id'', ''from'', ''text'', ''date''] \<and>
               field ''id'' (elems ! i) = Some (JInt (m_id (msgs ! i))) \<and>
               field ''from'' (elems ! i) = Some (to_json (m_sender_id (msgs ! i))) \<and>
               field ''text'' (elems ! i) = Some (to_json (m_text (msgs ! i))) \<and>
               field ''date'' (elems ! i) =
                 Some (case m_date (msgs ! i) of None \<Rightarrow> JNull | Some d \<Rightarrow> JStr (isoformat py d)))) \<and>
         out p' = out p @ [''Saved '' @ str_nat (length msgs) @ '' messages to out/messages_''
                             @ now_stamp p @ ''.json'']"
proof -
  define P where "P =
      print_line (''Saved '' @ str_nat (length msgs) @ '' messages to out/messages_'' @ now_stamp p @ ''.json'')
        (write_json (''out/messages_'' @ now_stamp p @ ''.json'') (JArr (map (message_record py) msgs))
           (makedirs ''out'' (p\<lparr>world := w, calls := calls p @ [Get_all_messages (current self) count]\<rparr>)))"
  have routed: "cmd_save py fc args self p = save_messages py fc (current self) count self p"
    by (rule cmd_save_messages_target [OF assms(1-3)])
  have saved: "save_messages py fc (current self) count self p = (None, self, P)"
    unfolding P_def by (rule save_messages_fetched [OF assms(4)])
  from routed saved assms(5) have res: "r = None" "self' = self" "p' = P"
    by simp_all
  have written: "files p' (''out/messages_'' @ now_stamp p @ ''.json'') = Some (JArr (map (message_record py) msgs))"
    by (simp add: res(3) P_def print_line_def write_json_def makedirs_def)
  have printed: "out p' = out p @ [''Saved '' @ str_nat (length msgs) @ '' messages to out/messages_''
                             @ now_stamp p @ ''.json'']"
    by (simp add: res(3) P_def print_line_def write_json_def makedirs_def)
  from written printed res(1,2) show ?thesis
    by (simp add: message_record_keys)
qed

theorem save_messages_round_trip_witness:
  "parse_limit ascii_builtins ((init PyNone)\<lparr>current := PyInt 5\<rparr>) [''m''] = (PyStr ''m'', PyInt 1000) \<and>
   PyStr ''m'' \<in> set message_targets \<and>
   truthy (current ((init PyNone)\<lparr>current := PyInt 5\<rparr>)) \<and>
   client_get_all_messages counting_facade (current ((init PyNone)\<lparr>current := PyInt 5\<rparr>)) (PyInt 1000)
       (world (fresh_proc undated_messages)) = (Inr undated_messages, undated_messages) \<and>
   (\<exists>elems.
      files (snd (snd (cmd_save ascii_builtins counting_facade [''m''] ((init PyNone)\<lparr>current := PyInt 5\<rparr>)
                         (fresh_proc undated_messages))))
          ''out/messages_20240102030405.json'' = Some (JArr elems) \<and>
      length elems = 3 \<and>
      keys (elems ! 0) = [''id'', ''from'', ''text'', ''date''] \<and>
      field ''date'' (elems ! 0) = Some (JStr ''T25'') \<and>
      keys (elems ! 1) = [''id'', ''from'', ''text'', ''date''] \<and>
      field ''date'' (elems ! 1) = Some JNull)"
proof -
  have a: "parse_limit ascii_builtins ((init PyNone)\<lparr>current := PyInt 5\<rparr>) [''m''] = (PyStr ''m'', PyInt 1000)"
    by (simp add: parse_limit_def ascii_builtins_def ascii_lower_def init_def)
  have b: "PyStr ''m'' \<in> set message_targets"
    by (simp add: message_targets_def)
  have c: "truthy (current ((init PyNone)\<lparr>current := PyInt 5\<rparr>))"
    by simp
  have d: "client_get_all_messages counting_facade (current ((init PyNone)\<lparr>current := PyInt 5\<rparr>)) (PyInt 1000)
       (world (fresh_proc undated_messages)) = (Inr undated_messages, undated_messages)"
    by (simp add: counting_facade_def fresh_proc_def)
  obtain r self' p' where e: "cmd_save ascii_builtins counting_facade [''m''] ((init PyNone)\<lparr>current := PyInt 5\<rparr>)
                      (fresh_proc undated_messages) = (r, self', p')"
    by (cases "cmd_save ascii_builtins counting_facade [''m''] ((init PyNone)\<lparr>current := PyInt 5\<rparr>)
                      (fresh_proc undated_messages)")
  have stamp: "now_stamp (fresh_proc undated_messages) = ''20240102030405''"
    by (simp add: fresh_proc_def)
  have len: "length undated_messages = 3"
    by (simp add: undated_messages_def)
  have dates: "m_date (undated_messages ! 0) = Some (Aware 25)" "m_date (undated_messages ! Suc 0) = None"
    by (simp_all add: undated_messages_def)
  have iso: "isoformat ascii_builtins (Aware 25) = ''T25''"
    by (simp add: ascii_builtins_def str_int_def str_nat.simps)
  from save_messages_round_trip [OF a b c d e]
  obtain elems where f: "files p' ''out/messages_20240102030405.json'' = Some (JArr elems)"
    and g: "length elems = 3"
    and each: "\<forall>i < 3.
               keys (elems ! i) = [''id'', ''from'', ''text'', ''date''] \<and>
               field ''date'' (elems ! i) =
                 Some (case m_date (undated_messages ! i) of None \<Rightarrow> JNull
                       | Some d \<Rightarrow> JStr (isoformat ascii_builtins d))"
    by (auto simp: stamp len)
  from each have h: "keys (elems ! 0) = [''id'', ''from'', ''text'', ''date'']"
    "field ''date'' (elems ! 0) = Some (JStr ''T25'')"
    "keys (elems ! 1) = [''id'', ''from'', ''text'', ''date'']"
    "field ''date'' (elems ! 1) = Some JNull"
    by (simp_all add: dates iso)
  from a b c d e f g h show ?thesis by simp
qed

section \<open>The date-range fetch\<close>

lemma messages_between_dates_loop_dated:
  assumes "\<forall>m \<in> set (takeWhile (\<lambda>m. \<not> older_than ts m) ms).
             \<exists>d. m_date m = Some d \<and> aware d = aware ts \<and> aware d = aware te"
  shows "messages_between_dates_loop py chat_id ts te ms printed records =
           (printed @ map (info_line py chat_id)
                        (take (Suc (length (takeWhile (\<lambda>m. \<not> older_than ts m) ms))) ms),
            Inr (records @ date_range_spec ts te ms))"
  using assms
proof (induction ms arbitrary: printed records)
  case Nil
  then show ?case by (simp add: date_range_spec_def)
next
  case (Cons m ms)
  show ?case
  proof (cases "older_than ts m")
    case True
    then show ?thesis
      by (auto simp: older_than_def date_range_spec_def dt_less_def split: option.splits if_splits)
  next
    case False
    with Cons.prems obtain d where d: "m_date m = Some d" "aware d = aware ts" "aware d = aware te"
      by auto
    from False d have later: "\<not> instant d < instant ts"
      by (simp add: older_than_def dt_less_def)
    from False Cons.prems
    have rest: "\<forall>m \<in> set (takeWhile (\<lambda>m. \<not> older_than ts m) ms).
                  \<exists>d. m_date m = Some d \<and> aware d = aware ts \<and> aware d = aware te"
      by simp
    show ?thesis
      using d later False Cons.IH [OF rest]
      by (simp add: date_range_spec_def in_range_def dt_less_def dt_le_def)
  qed
qed

text \<open>A message met before the first too-old one that has no date, or a date that
  compares neither with the start nor with the end, stops the loop with \<open>TypeError\<close>.\<close>

lemma messages_between_dates_loop_raises:
  assumes "\<exists>m \<in> set (takeWhile (\<lambda>m. \<not> older_than ts m) ms).
             \<not> (\<exists>d. m_date m = Some d \<and> aware d = aware ts \<and> aware d = aware te)"
  shows "snd (messages_between_dates_loop py chat_id ts te ms printed records) = Inl TypeError"
  using assms
proof (induction ms arbitrary: printed records)
  case Nil
  then show ?case by simp
next
  case (Cons m ms)
  show ?case
  proof (cases "m_date m")
    case None
    then show ?thesis by simp
  next
    case (Some d)
    show ?thesis
    proof (cases "aware d = aware ts")
      case False
      with Some show ?thesis by (simp add: dt_less_def)
    next
      case same: True
      show ?thesis
      proof (cases "instant d < instant ts")
        case True
        with Some same have "older_than ts m"
          by (simp add: older_than_def dt_less_def)
        with Cons.prems show ?thesis by simp
      next
        case False
        with Some same have young: "\<not> older_than ts m"
          by (simp add: older_than_def dt_less_def)
        show ?thesis
        proof (cases "aware d = aware te")
          case False
          with Some same \<open>\<not> instant d < instant ts\<close> show ?thesis
            by (simp add: dt_less_def dt_le_def)
        next
          case True
          with Some same young Cons.prems
          have "\<exists>m \<in> set (takeWhile (\<lambda>m. \<not> older_than ts m) ms).
                  \<not> (\<exists>d. m_date m = Some d \<and> aware d = aware ts \<and> aware d = aware te)"
            by simp
          from Cons.IH [OF this] Some same True \<open>\<not> instant d < instant ts\<close> show ?thesis
            by (simp add: dt_less_def dt_le_def Let_def)
        qed
      qed
    qed
  qed
qed

text \<open>
  C2, as the code has it: for every chat, every range from \<open>ts\<close> to \<open>te\<close> and every
  finite backward traversal \<open>ms\<close> that the service yields from \<open>te\<close>, in which each
  message met before the first one strictly older than \<open>ts\<close> carries a timestamp that
  compares with \<open>ts\<close> and with \<open>te\<close> (all naive or all aware), the date-range fetch
  returns exactly the messages met before the first one strictly older than \<open>ts\<close>
  whose timestamp lies between \<open>ts\<close> and \<open>te\<close> inclusive, in the order met. The
  loop handles (and prints a line for) the messages up to and including the first
  too-old one, or all of them when there is none, and then stops.
\<close>

theorem date_range_fetch_with_timestamps:
  assumes "iter_messages tg chat_id te lim w = (ms, w1)"
    and "\<forall>m \<in> set (takeWhile (\<lambda>m. \<not> older_than ts m) ms).
           \<exists>d. m_date m = Some d \<and> aware d = aware ts \<and> aware d = aware te"
  shows "messages_between_dates py tg chat_id ts te lim w =
           ((map (info_line py chat_id)
               (take (Suc (length (takeWhile (\<lambda>m. \<not> older_than ts m) ms))) ms),
             Inr (date_range_spec ts te ms)), w1) \<and>
         date_range_spec ts te ms =
           filter (\<lambda>m. \<exists>d. m_date m = Some d \<and> dt_le ts d = Inr True \<and> dt_le d te = Inr True)
             (takeWhile (\<lambda>m. \<not> (\<exists>d. m_date m = Some d \<and> dt_less d ts = Inr True)) ms)"
proof -
  have older: "older_than ts = (\<lambda>m. \<exists>d. m_date m = Some d \<and> dt_less d ts = Inr True)"
    by (rule ext) (simp add: older_than_def split: option.splits)
  have range: "in_range ts te =
      (\<lambda>m. \<exists>d. m_date m = Some d \<and> dt_le ts d = Inr True \<and> dt_le d te = Inr True)"
    by (rule ext) (simp add: in_range_def split: option.splits)
  have spec: "date_range_spec ts te ms =
           filter (\<lambda>m. \<exists>d. m_date m = Some d \<and> dt_le ts d = Inr True \<and> dt_le d te = Inr True)
             (takeWhile (\<lambda>m. \<not> (\<exists>d. m_date m = Some d \<and> dt_less d ts = Inr True)) ms)"
    unfolding date_range_spec_def older range ..
  from assms(1) messages_between_dates_loop_dated [OF assms(2), of py chat_id "[]" "[]"]
  have "messages_between_dates py tg chat_id ts te lim w =
           ((map (info_line py chat_id)
               (take (Suc (length (takeWhile (\<lambda>m. \<not> older_than ts m) ms))) ms),
             Inr (date_range_spec ts te ms)), w1)"
    by (simp add: messages_between_dates_def)
  with spec show ?thesis by simp
qed

theorem date_range_fetch_with_timestamps_witness:
  "iter_messages stock_sdk (PyInt 5) (Aware 35) PyNone dated_messages = (dated_messages, dated_messages) \<and>
   snd (fst (messages_between_dates ascii_builtins stock_sdk (PyInt 5) (Aware 15) (Aware 35) PyNone
               dated_messages)) =
     Inr [\<lparr>m_id = 3, m_sender_id = PyInt 12, m_text = PyStr ''c'', m_date = Some (Aware 30)\<rparr>,
          \<lparr>m_id = 2, m_sender_id = PyNone, m_text = PyStr [], m_date = Some (Aware 20)\<rparr>] \<and>
   length (fst (fst (messages_between_dates ascii_builtins stock_sdk (PyInt 5) (Aware 15) (Aware 35) PyNone
                       dated_messages))) = 4"
proof -
  have a: "iter_messages stock_sdk (PyInt 5) (Aware 35) PyNone dated_messages = (dated_messages, dated_messages)"
    by (simp add: stock_sdk_def)
  have b: "\<forall>m \<in> set (takeWhile (\<lambda>m. \<not> older_than (Aware 15) m) dated_messages).
             \<exists>d. m_date m = Some d \<and> aware d = aware (Aware 15) \<and> aware d = aware (Aware 35)"
    by (simp add: dated_messages_def older_than_def dt_less_def)
  have c: "date_range_spec (Aware 15) (Aware 35) dated_messages =
     [\<lparr>m_id = 3, m_sender_id = PyInt 12, m_text = PyStr ''c'', m_date = Some (Aware 30)\<rparr>,
      \<lparr>m_id = 2, m_sender_id = PyNone, m_text = PyStr [], m_date = Some (Aware 20)\<rparr>]"
    by (simp add: date_range_spec_def dated_messages_def older_than_def in_range_def dt_less_def dt_le_def)
  have d: "length (takeWhile (\<lambda>m. \<not> older_than (Aware 15) m) dated_messages) = 3"
    by (simp add: dated_messages_def older_than_def dt_less_def)
  have e: "length dated_messages = 4"
    by (simp add: dated_messages_def)
  from date_range_fetch_with_timestamps [OF a b, of ascii_builtins] a c d e
  show ?thesis by simp
qed

text \<open>
  A traversal with a message that has no date between two messages of the range: the
  fetch raises \<open>TypeError\<close>, where the wording of the specification gives the two messages of the range.
\<close>

theorem date_range_fetch_undated_counterexample:
  "snd (fst (messages_between_dates ascii_builtins stock_sdk (PyInt 5) (Aware 10) (Aware 30) PyNone
               undated_messages)) = Inl TypeError \<and>
   date_range_spec (Aware 10) (Aware 30) undated_messages =
     [\<lparr>m_id = 7, m_sender_id = PyInt 11, m_text = PyStr ''x'', m_date = Some (Aware 25)\<rparr>,
      \<lparr>m_id = 5, m_sender_id = PyInt 11, m_text = PyStr ''z'', m_date = Some (Aware 15)\<rparr>]"
  by (simp add: messages_between_dates_def stock_sdk_def undated_messages_def date_range_spec_def
      older_than_def in_range_def dt_less_def dt_le_def)

text \<open>A naive range over the aware timestamps of the service raises at the first
  message.\<close>

lemma messages_between_dates_naive_range_raises:
  "snd (fst (messages_between_dates ascii_builtins stock_sdk (PyInt 5) (Naive 15) (Naive 35) PyNone
               dated_messages)) = Inl TypeError"
  by (simp add: messages_between_dates_def stock_sdk_def dated_messages_def dt_less_def)

end
